theory Spec2Isabelle
  imports Complex_Main
begin

section \<open>Intra-surface distances and verticality (intradistance_verticality.py)\<close>

text \<open>
  A shallow embedding of \<^verbatim>\<open>intradistance_verticality.py\<close>.  Finite floating point
  numbers are idealised as reals; the one non-finite value the program produces and tests
  for, \<^verbatim>\<open>np.nan\<close>, is a constructor of its own, so that every \<^verbatim>\<open>np.isnan\<close> test and
  every comparison with a NaN operand is a branch of the model.
\<close>

subsection \<open>Numbers and vectors\<close>

datatype npfloat = NaN | Val real

fun isnan :: "npfloat \<Rightarrow> bool" where
  "isnan NaN = True"
| "isnan (Val x) = False"

text \<open>IEEE comparisons: any comparison with a NaN operand is false.\<close>

fun fgt :: "npfloat \<Rightarrow> npfloat \<Rightarrow> bool" where
  "fgt (Val x) (Val y) = (x > y)"
| "fgt _ _ = False"

fun fle :: "npfloat \<Rightarrow> npfloat \<Rightarrow> bool" where
  "fle (Val x) (Val y) = (x \<le> y)"
| "fle _ _ = False"

type_synonym vec3 = "real \<times> real \<times> real"

fun vadd :: "vec3 \<Rightarrow> vec3 \<Rightarrow> vec3" where
  "vadd (a, b, c) (x, y, z) = (a + x, b + y, c + z)"

fun vsub :: "vec3 \<Rightarrow> vec3 \<Rightarrow> vec3" where
  "vsub (a, b, c) (x, y, z) = (a - x, b - y, c - z)"

fun vscale :: "vec3 \<Rightarrow> real \<Rightarrow> vec3" where
  "vscale (a, b, c) k = (a * k, b * k, c * k)"

fun vneg :: "vec3 \<Rightarrow> vec3" where
  "vneg (a, b, c) = (- a, - b, - c)"

text \<open>\<^verbatim>\<open>np.linalg.norm\<close> of a 3-vector.\<close>

fun linalg_norm :: "vec3 \<Rightarrow> real" where
  "linalg_norm (a, b, c) = sqrt (a * a + b * b + c * c)"

fun vz :: "vec3 \<Rightarrow> real" where
  "vz (a, b, c) = c"

subsection \<open>The cell locator\<close>

text \<open>
  The VTK cell locator is an external collaborator.  \<^verbatim>\<open>IntersectWithLine(p0, pmax,
  tolerance, t, p1, pcoords, sub_id, cell1_id)\<close> writes its answer into the out-parameters
  that the caller has initialised to \<^verbatim>\<open>p1 = [0,0,0]\<close> and \<^verbatim>\<open>cell1_id = -1\<close>.  The model
  takes the locator as a function from the three inputs to the final values of the two
  out-parameters the program reads, \<open>(cell1_id, p1)\<close>.
\<close>

type_synonym locator = "vec3 \<Rightarrow> vec3 \<Rightarrow> real \<Rightarrow> int \<times> vec3"



subsection \<open>get\_dist\_two\_directions\<close>

datatype error = AssertionError

text \<open>The body of the loop over the two directions (lines 64--82).\<close>

definition probe ::
  "vec3 \<Rightarrow> locator \<Rightarrow> real \<Rightarrow> real \<Rightarrow> real \<Rightarrow> vec3 \<Rightarrow> npfloat \<times> int" where
  "probe point locator dist_min dist_max tolerance direction =
     (let p0 = vadd point (vscale direction dist_min);
          pmax = vadd point (vscale direction dist_max);
          (cell1_id, p1) = locator p0 pmax tolerance;
          distance = linalg_norm (vsub p1 point)
      in if cell1_id = - 1 then (NaN, - 1)
         else if distance > dist_max + 1 \<or> distance < dist_min - 1 then (NaN, - 1)
         else (Val (linalg_norm (vsub p1 point)), cell1_id))"

text \<open>
  The loop \<^verbatim>\<open>for direction in [-normal, normal]\<close>, appending to the two result lists.
\<close>

fun probe_loop ::
  "vec3 \<Rightarrow> locator \<Rightarrow> real \<Rightarrow> real \<Rightarrow> real \<Rightarrow> vec3 list
    \<Rightarrow> npfloat list \<times> int list \<Rightarrow> npfloat list \<times> int list" where
  "probe_loop point locator dist_min dist_max tolerance [] acc = acc"
| "probe_loop point locator dist_min dist_max tolerance (direction # ds) (distances, cell_ids) =
     (case probe point locator dist_min dist_max tolerance direction of
        (d, c) \<Rightarrow>
          probe_loop point locator dist_min dist_max tolerance ds
            (distances @ [d], cell_ids @ [c]))"

text \<open>The reordering step (lines 84--93); \<^verbatim>\<open>xs[::-1]\<close> is list reversal.\<close>

definition reorder :: "npfloat list \<times> int list \<Rightarrow> npfloat list \<times> int list" where
  "reorder dc =
     (case dc of (distances, cell_ids) \<Rightarrow>
        if isnan (distances ! 0) then (rev distances, rev cell_ids)
        else if isnan (distances ! 1) then (distances, cell_ids)
        else if fgt (distances ! 0) (distances ! 1) then (rev distances, rev cell_ids)
        else (distances, cell_ids))"

text \<open>The assertion of line 96 and the returned quadruple (line 98).\<close>

definition check_and_return ::
  "npfloat list \<times> int list \<Rightarrow> error + (npfloat \<times> int \<times> npfloat \<times> int)" where
  "check_and_return dc =
     (case dc of (distances, cell_ids) \<Rightarrow>
        if isnan (distances ! 1) \<or> fle (distances ! 0) (distances ! 1)
        then Inr (distances ! 0, cell_ids ! 0, distances ! 1, cell_ids ! 1)
        else Inl AssertionError)"

definition get_dist_two_directions ::
  "vec3 \<Rightarrow> vec3 \<Rightarrow> locator \<Rightarrow> real \<Rightarrow> real \<Rightarrow> real
    \<Rightarrow> error + (npfloat \<times> int \<times> npfloat \<times> int)" where
  "get_dist_two_directions point normal locator dist_min dist_max tolerance =
     check_and_return
       (reorder
          (probe_loop point locator dist_min dist_max tolerance [vneg normal, normal] ([], [])))"

subsection \<open>The triangle graph\<close>

text \<open>
  The graph-tool graph carries one value of every vertex property per vertex.  The two
  vector properties the program reads, \<^verbatim>\<open>xyz\<close> and \<^verbatim>\<open>n_v\<close>, are fields of the vertex;
  the scalar properties it creates are entries of the property table \<^verbatim>\<open>graph.vp\<close>,
  a dictionary from names to arrays.  Loading and saving the graph, the surface and the
  CSV file are external; the functions below are what happens between load and save.
\<close>

record vertex =
  xyz :: vec3
  n_v :: vec3

datatype vprop = PFloat "npfloat list" | PLong "int list"

record tgraph =
  vertices :: "vertex list"
  vp :: "string \<rightharpoonup> vprop"

subsection \<open>surface\_verticality\<close>

text \<open>
  \<^verbatim>\<open>90-np.abs(np.arccos(z_values)*180/np.pi-90)\<close>, elementwise.  \<^verbatim>\<open>np.arccos\<close>
  is NaN outside \<open>[-1, 1]\<close>, and NaN propagates through the arithmetic.
\<close>

definition vert :: "real \<Rightarrow> npfloat" where
  "vert z = (if - 1 \<le> z \<and> z \<le> 1 then Val (90 - \<bar>arccos z * 180 / pi - 90\<bar>) else NaN)"

definition surface_verticality :: "tgraph \<Rightarrow> tgraph" where
  "surface_verticality g =
     (let z_values = map (\<lambda>v. vz (n_v v)) (vertices g);
          verticality = map vert z_values
      in g\<lparr>vp := (vp g)(''verticality'' \<mapsto> PFloat verticality)\<rparr>)"

subsection \<open>surface\_self\_distances\<close>

text \<open>
  The loop \<^verbatim>\<open>for i in range(len(close_distances.a))\<close> of lines 148--149, which stores
  the quadruple of point \<open>i\<close> at index \<open>i\<close> of the four arrays.  The call passes the
  literal \<^verbatim>\<open>tolerance=0.001\<close>.  An exception raised by the assertion leaves the loop.
\<close>

fun distance_loop ::
  "nat list \<Rightarrow> vec3 list \<Rightarrow> vec3 list \<Rightarrow> locator \<Rightarrow> real \<Rightarrow> real
    \<Rightarrow> npfloat list \<times> int list \<times> npfloat list \<times> int list
    \<Rightarrow> error + (npfloat list \<times> int list \<times> npfloat list \<times> int list)" where
  "distance_loop [] xyzs normal locator dist_min dist_max arrs = Inr arrs"
| "distance_loop (i # is) xyzs normal locator dist_min dist_max
      (close_distances, close_id, far_distances, far_id) =
     (case get_dist_two_directions (xyzs ! i) (normal ! i) locator dist_min dist_max (1 / 1000) of
        Inl e \<Rightarrow> Inl e
      | Inr (cd, ci, fd, fi) \<Rightarrow>
          distance_loop is xyzs normal locator dist_min dist_max
            (close_distances[i := cd], close_id[i := ci],
             far_distances[i := fd], far_id[i := fi]))"

text \<open>
  \<^verbatim>\<open>new_vertex_property\<close> creates an array with one zero per vertex.  The parameter
  \<open>tolerance\<close> is part of the signature (line 119).
\<close>

definition surface_self_distances ::
  "tgraph \<Rightarrow> locator \<Rightarrow> real \<Rightarrow> real \<Rightarrow> real \<Rightarrow> error + tgraph" where
  "surface_self_distances g locator dist_min dist_max tolerance =
     (let xyzs = map xyz (vertices g);
          normal = map n_v (vertices g);
          n = length (vertices g);
          close_distances = replicate n (Val 0);
          close_id = replicate n 0;
          far_distances = replicate n (Val 0);
          far_id = replicate n 0
      in case distance_loop [0..<n] xyzs normal locator dist_min dist_max
                (close_distances, close_id, far_distances, far_id) of
           Inl e \<Rightarrow> Inl e
         | Inr (cd, ci, fd, fi) \<Rightarrow>
             Inr (g\<lparr>vp := (vp g)(''self_dist_min'' \<mapsto> PFloat cd,
                                  ''self_id_min'' \<mapsto> PLong ci,
                                  ''self_dist_far'' \<mapsto> PFloat fd,
                                  ''self_id_far'' \<mapsto> PLong fi)\<rparr>))"

subsection \<open>intra\_cli and the derived file names\<close>

text \<open>Python's \<^verbatim>\<open>s[:-k]\<close> for \<open>k > 0\<close>: all but the last \<open>k\<close> characters, empty if there are fewer.\<close>

definition slice_to_neg :: "nat \<Rightarrow> string \<Rightarrow> string" where
  "slice_to_neg k s = take (length s - k) s"

text \<open>Line 180: \<^verbatim>\<open>surface_file = graph_file[:-3]+".vtp"\<close>.\<close>

definition intra_cli_surface_file :: "string \<Rightarrow> string" where
  "intra_cli_surface_file graph_file = slice_to_neg 3 graph_file @ ''.vtp''"

text \<open>Line 164: \<^verbatim>\<open>csvname = graph_file[:-3]+".csv"\<close>.\<close>

definition surface_self_distances_csvname :: "string \<Rightarrow> string" where
  "surface_self_distances_csvname graph_file = slice_to_neg 3 graph_file @ ''.csv''"

text \<open>Line 117: \<^verbatim>\<open>export_csv(tg, graph_file[:-4]+".csv")\<close>.\<close>

definition surface_verticality_csvname :: "string \<Rightarrow> string" where
  "surface_verticality_csvname graph_file = slice_to_neg 4 graph_file @ ''.csv''"

text \<open>
  The command: \<open>dist_min\<close> and \<open>dist_max\<close> are integers (\<^verbatim>\<open>type=int\<close>), \<open>tolerance\<close> a
  float with default \<open>0.1\<close>; all three are handed to \<open>surface_self_distances\<close>.
\<close>

definition default_tolerance :: real where
  "default_tolerance = 1 / 10"

definition intra_cli ::
  "tgraph \<Rightarrow> locator \<Rightarrow> bool \<Rightarrow> int \<Rightarrow> int \<Rightarrow> real \<Rightarrow> error + tgraph" where
  "intra_cli g locator verticality dist_min dist_max tolerance =
     (let g1 = (if verticality then surface_verticality g else g)
      in surface_self_distances g1 locator (of_int dist_min) (of_int dist_max) tolerance)"

subsection \<open>Locators used as concrete inputs\<close>

text \<open>
  Inputs for the concrete evaluations below, not part of the program.  \<open>sheet_locator gap
  h c\<close> is a horizontal sheet at height \<open>h\<close> made of the one cell \<open>c\<close>, probed by a
  vertical segment: it reports the point where the segment crosses the sheet.  The
  sheet's edge passes the probed line at distance \<open>gap\<close>, so the hit is accepted when
  \<open>gap \<le> tolerance\<close>; with \<open>gap = 0\<close> the line meets the sheet itself.
\<close>

definition sheet_locator :: "real \<Rightarrow> real \<Rightarrow> int \<Rightarrow> locator" where
  "sheet_locator gap h c p0 pmax tolerance =
     (case (p0, pmax) of
        ((x0, y0, z0), (x1, y1, z1)) \<Rightarrow>
          if gap \<le> tolerance \<and> min z0 z1 \<le> h \<and> h \<le> max z0 z1
          then (c, (x0, y0, h))
          else (- 1, (0, 0, 0)))"

text \<open>Two exact sheets, cell 4 at height 10 and cell 9 at height -10.\<close>

definition two_sheets_locator :: locator where
  "two_sheets_locator p0 pmax tolerance =
     (if fst (sheet_locator 0 10 4 p0 pmax tolerance) \<noteq> - 1
      then sheet_locator 0 10 4 p0 pmax tolerance
      else sheet_locator 0 (- 10) 9 p0 pmax tolerance)"

section \<open>Properties\<close>

subsection \<open>Auxiliary facts\<close>

lemma probe_loop_two:
  "probe_loop p loc a b t [d0, d1] ([], []) =
     ([fst (probe p loc a b t d0), fst (probe p loc a b t d1)],
      [snd (probe p loc a b t d0), snd (probe p loc a b t d1)])"
  by (simp split: prod.splits)

lemma probe_cases:
  "probe p loc a b t d = (NaN, - 1) \<or> (\<exists>x c. probe p loc a b t d = (Val x, c) \<and> c \<noteq> - 1)"
  by (auto simp: probe_def Let_def split: prod.splits)

lemma get_dist_eq:
  assumes "probe p loc a b t (vneg n) = (d0, c0)" and "probe p loc a b t n = (d1, c1)"
  shows "get_dist_two_directions p n loc a b t =
     Inr (if isnan d0 then (d1, c1, d0, c0)
          else if isnan d1 then (d0, c0, d1, c1)
          else if fgt d0 d1 then (d1, c1, d0, c0)
          else (d0, c0, d1, c1))"
  using assms
  by (cases d0; cases d1)
     (auto simp: get_dist_two_directions_def probe_loop_two reorder_def check_and_return_def)

lemma linalg_norm_z: "linalg_norm (0, 0, c) = \<bar>c\<bar>"
  by simp

text \<open>
  Scenario C of the specification: a point at the origin with normal \<open>(0,0,1)\<close>, a sheet
  10 units above it, \<open>dist_min = 1\<close>, \<open>dist_max = 50\<close>.
\<close>

lemma scenario_c_miss:
  "probe (0, 0, 0) (sheet_locator 0 10 5) 1 50 (1 / 10) (vneg (0, 0, 1)) = (NaN, - 1)"
  by (simp add: probe_def sheet_locator_def)

lemma scenario_c_hit:
  "probe (0, 0, 0) (sheet_locator 0 10 5) 1 50 (1 / 10) (0, 0, 1) = (Val 10, 5)"
  by (simp add: probe_def sheet_locator_def linalg_norm_z del: linalg_norm.simps)

lemma two_sheets_down:
  "probe (0, 0, 0) two_sheets_locator 1 50 (1 / 10) (vneg (0, 0, 1)) = (Val 10, 9)"
  by (simp add: probe_def two_sheets_locator_def sheet_locator_def linalg_norm_z
           del: linalg_norm.simps)

lemma two_sheets_up:
  "probe (0, 0, 0) two_sheets_locator 1 50 (1 / 10) (0, 0, 1) = (Val 10, 4)"
  by (simp add: probe_def two_sheets_locator_def sheet_locator_def linalg_norm_z
           del: linalg_norm.simps)

subsection \<open>The reordering rule\<close>

text \<open>
  C1.  With \<open>(d0, id0)\<close> the result of the probe along \<open>-normal\<close> and \<open>(d1, id1)\<close> that of
  the probe along \<open>+normal\<close>, the returned quadruple follows the priority: \<open>d0\<close> NaN,
  swap, whatever \<open>d1\<close> is; else \<open>d1\<close> NaN, no swap; else \<open>d0 > d1\<close> (strictly), swap;
  else no swap.  When exactly one probe hits, its pair is in the close slot and
  \<open>(NaN, -1)\<close> in the far slot.
\<close>

theorem reorder_priority:
  assumes "probe point locator dist_min dist_max tolerance (vneg normal) = (d0, id0)"
    and "probe point locator dist_min dist_max tolerance normal = (d1, id1)"
  shows "get_dist_two_directions point normal locator dist_min dist_max tolerance =
           Inr (if isnan d0 then (d1, id1, d0, id0)
                else if isnan d1 then (d0, id0, d1, id1)
                else if fgt d0 d1 then (d1, id1, d0, id0)
                else (d0, id0, d1, id1))
       \<and> (isnan d0 \<and> \<not> isnan d1 \<longrightarrow>
            get_dist_two_directions point normal locator dist_min dist_max tolerance =
              Inr (d1, id1, NaN, - 1))
       \<and> (\<not> isnan d0 \<and> isnan d1 \<longrightarrow>
            get_dist_two_directions point normal locator dist_min dist_max tolerance =
              Inr (d0, id0, NaN, - 1))"
proof -
  note eq = get_dist_eq [OF assms]
  have s0: "isnan d0 \<Longrightarrow> d0 = NaN \<and> id0 = - 1"
    using probe_cases [of point locator dist_min dist_max tolerance "vneg normal"] assms(1)
    by auto
  have s1: "isnan d1 \<Longrightarrow> d1 = NaN \<and> id1 = - 1"
    using probe_cases [of point locator dist_min dist_max tolerance normal] assms(2)
    by auto
  show ?thesis
    using eq s0 s1 by auto
qed

theorem reorder_priority_witness:
  "probe (0, 0, 0) (sheet_locator 0 10 5) 1 50 (1 / 10) (vneg (0, 0, 1)) = (NaN, - 1)
   \<and> probe (0, 0, 0) (sheet_locator 0 10 5) 1 50 (1 / 10) (0, 0, 1) = (Val 10, 5)
   \<and> get_dist_two_directions (0, 0, 0) (0, 0, 1) (sheet_locator 0 10 5) 1 50 (1 / 10) =
       Inr (Val 10, 5, NaN, - 1)"
  using reorder_priority [OF scenario_c_miss scenario_c_hit] scenario_c_miss scenario_c_hit
  by simp

subsection \<open>The ordering assertion\<close>

text \<open>
  C2.  Whatever the two probe results are, after the reordering step the far distance is
  NaN or the close distance is at most the far distance; so the assertion of line 96
  holds and \<open>get_dist_two_directions\<close> returns its quadruple, never the assertion error.
\<close>

theorem ordering_assertion_holds:
  "(\<exists>ds cs. reorder ([d0, d1], [c0, c1]) = (ds, cs)
        \<and> (isnan (ds ! 1) \<or> fle (ds ! 0) (ds ! 1)))
   \<and> (\<exists>cd ci fd fi.
        get_dist_two_directions point normal locator dist_min dist_max tolerance =
          Inr (cd, ci, fd, fi)
        \<and> (isnan fd \<or> fle cd fd))"
proof
  show "\<exists>ds cs. reorder ([d0, d1], [c0, c1]) = (ds, cs)
        \<and> (isnan (ds ! 1) \<or> fle (ds ! 0) (ds ! 1))"
    by (cases d0; cases d1) (auto simp: reorder_def)
next
  obtain e0 i0 where p0: "probe point locator dist_min dist_max tolerance (vneg normal) = (e0, i0)"
    by (cases "probe point locator dist_min dist_max tolerance (vneg normal)")
  obtain e1 i1 where p1: "probe point locator dist_min dist_max tolerance normal = (e1, i1)"
    by (cases "probe point locator dist_min dist_max tolerance normal")
  show "\<exists>cd ci fd fi.
        get_dist_two_directions point normal locator dist_min dist_max tolerance =
          Inr (cd, ci, fd, fi)
        \<and> (isnan fd \<or> fle cd fd)"
    using get_dist_eq [OF p0 p1] by (cases e0; cases e1) auto
qed

theorem ordering_assertion_holds_witness:
  "reorder ([Val 7, Val 3], [9, 4]) = ([Val 3, Val 7], [4, 9])
   \<and> get_dist_two_directions (0, 0, 0) (0, 0, 1) (sheet_locator 0 10 5) 1 50 (1 / 10) \<noteq>
       Inl AssertionError"
  using ordering_assertion_holds
          [of "Val 7" "Val 3" 9 4 "(0, 0, 0)" "(0, 0, 1)" "sheet_locator 0 10 5" 1 50 "1 / 10"]
  by (auto simp: reorder_def)

subsection \<open>Sentinel consistency\<close>

text \<open>
  C3.  In the quadruple \<open>(close_distance, close_id, far_distance, far_id)\<close> that
  \<open>get_dist_two_directions\<close> returns, \<open>close_id = -1\<close> exactly when \<open>close_distance\<close> is
  NaN, and \<open>far_id = -1\<close> exactly when \<open>far_distance\<close> is NaN.
\<close>

theorem sentinel_consistency:
  "\<exists>cd ci fd fi.
     get_dist_two_directions point normal locator dist_min dist_max tolerance =
       Inr (cd, ci, fd, fi)
     \<and> (ci = - 1 \<longleftrightarrow> isnan cd) \<and> (fi = - 1 \<longleftrightarrow> isnan fd)"
proof -
  obtain e0 i0 where p0: "probe point locator dist_min dist_max tolerance (vneg normal) = (e0, i0)"
    by (cases "probe point locator dist_min dist_max tolerance (vneg normal)")
  obtain e1 i1 where p1: "probe point locator dist_min dist_max tolerance normal = (e1, i1)"
    by (cases "probe point locator dist_min dist_max tolerance normal")
  have c0: "i0 = - 1 \<longleftrightarrow> isnan e0"
    using probe_cases [of point locator dist_min dist_max tolerance "vneg normal"] p0 by auto
  have c1: "i1 = - 1 \<longleftrightarrow> isnan e1"
    using probe_cases [of point locator dist_min dist_max tolerance normal] p1 by auto
  show ?thesis
    using get_dist_eq [OF p0 p1] c0 c1 by (cases e0; cases e1) auto
qed

theorem sentinel_consistency_witness:
  "get_dist_two_directions (0, 0, 0) (0, 0, 1) (sheet_locator 0 10 5) 1 50 (1 / 10) =
     Inr (Val 10, 5, NaN, - 1)
   \<and> ((5 :: int) = - 1 \<longleftrightarrow> isnan (Val 10)) \<and> ((- 1 :: int) = - 1 \<longleftrightarrow> isnan NaN)"
  using sentinel_consistency [of "(0, 0, 0)" "(0, 0, 1)" "sheet_locator 0 10 5" 1 50 "1 / 10"]
    get_dist_eq [OF scenario_c_miss scenario_c_hit]
  by auto

subsection \<open>One directional probe\<close>

text \<open>
  C4.  Let the locator answer the query of one direction with cell id \<open>cell1_id\<close> and hit
  point \<open>p1\<close>, where the cell id is \<open>-1\<close> or a cell index (the locator's contract).  The
  probe yields the sentinel \<open>(NaN, -1)\<close> exactly when \<open>cell1_id = -1\<close> or the distance from
  the point to \<open>p1\<close> is outside \<open>[dist_min - 1, dist_max + 1]\<close>; otherwise it yields that
  distance with \<open>cell1_id\<close>, which is then non-negative.
\<close>

theorem probe_result:
  assumes "locator (vadd point (vscale direction dist_min))
                   (vadd point (vscale direction dist_max)) tolerance = (cell1_id, p1)"
    and "- 1 \<le> cell1_id"
  shows "(probe point locator dist_min dist_max tolerance direction = (NaN, - 1) \<longleftrightarrow>
            cell1_id = - 1
            \<or> \<not> (dist_min - 1 \<le> linalg_norm (vsub p1 point)
                  \<and> linalg_norm (vsub p1 point) \<le> dist_max + 1))
       \<and> (probe point locator dist_min dist_max tolerance direction \<noteq> (NaN, - 1) \<longrightarrow>
            probe point locator dist_min dist_max tolerance direction =
              (Val (linalg_norm (vsub p1 point)), cell1_id)
            \<and> 0 \<le> cell1_id)"
  using assms by (auto simp: probe_def Let_def)

theorem probe_result_witness:
  "sheet_locator 0 10 5 (vadd (0, 0, 0) (vscale (0, 0, 1) 1))
       (vadd (0, 0, 0) (vscale (0, 0, 1) 50)) (1 / 10) = (5, (0, 0, 10))
   \<and> - 1 \<le> (5 :: int)
   \<and> probe (0, 0, 0) (sheet_locator 0 10 5) 1 50 (1 / 10) (0, 0, 1) \<noteq> (NaN, - 1)
   \<and> probe (0, 0, 0) (sheet_locator 0 10 5) 1 50 (1 / 10) (0, 0, 1) =
       (Val (linalg_norm (vsub (0, 0, 10) (0, 0, 0))), 5)"
proof -
  have q: "sheet_locator 0 10 5 (vadd (0, 0, 0) (vscale (0, 0, 1) 1))
       (vadd (0, 0, 0) (vscale (0, 0, 1) 50)) (1 / 10) = (5, (0, 0, 10))"
    by (simp add: sheet_locator_def)
  have c: "- 1 \<le> (5 :: int)" by simp
  show ?thesis
    using probe_result [where locator = "sheet_locator 0 10 5" and point = "(0, 0, 0)"
              and direction = "(0, 0, 1)" and dist_min = 1 and dist_max = 50
              and tolerance = "1 / 10", OF q c]
      q scenario_c_hit
    by simp
qed

subsection \<open>Ties\<close>

text \<open>
  C10.  When both probes return valid and equal distances there is no swap: the close
  slot holds the distance and cell id of the probe along \<open>-normal\<close>, which runs first,
  and the far slot those of the probe along \<open>+normal\<close>.
\<close>

theorem tie_keeps_order:
  assumes "probe point locator dist_min dist_max tolerance (vneg normal) = (Val d, id0)"
    and "probe point locator dist_min dist_max tolerance normal = (Val d, id1)"
  shows "get_dist_two_directions point normal locator dist_min dist_max tolerance =
           Inr (Val d, id0, Val d, id1)"
  using get_dist_eq [OF assms] by simp

theorem tie_keeps_order_witness:
  "probe (0, 0, 0) two_sheets_locator 1 50 (1 / 10) (vneg (0, 0, 1)) = (Val 10, 9)
   \<and> probe (0, 0, 0) two_sheets_locator 1 50 (1 / 10) (0, 0, 1) = (Val 10, 4)
   \<and> get_dist_two_directions (0, 0, 0) (0, 0, 1) two_sheets_locator 1 50 (1 / 10) =
       Inr (Val 10, 9, Val 10, 4)"
  using tie_keeps_order [OF two_sheets_down two_sheets_up] two_sheets_down two_sheets_up
  by simp

subsection \<open>The tolerance handed to the locator\<close>

text \<open>
  Whatever tolerance \<open>surface_self_distances\<close> is called with, the result is the same:
  each per-point query is made with \<open>0.001\<close>.
\<close>

lemma surface_self_distances_tolerance:
  "surface_self_distances g loc a b t = surface_self_distances g loc a b t'"
  by (simp add: surface_self_distances_def)

lemma edge_miss_down:
  "probe (0, 0, 0) (sheet_locator (1 / 100) 10 5) 1 50 t (vneg (0, 0, 1)) = (NaN, - 1)"
  by (simp add: probe_def sheet_locator_def)

lemma edge_hit_up:
  "probe (0, 0, 0) (sheet_locator (1 / 100) 10 5) 1 50 (1 / 10) (0, 0, 1) = (Val 10, 5)"
  by (simp add: probe_def sheet_locator_def linalg_norm_z del: linalg_norm.simps)

lemma edge_miss_up:
  "probe (0, 0, 0) (sheet_locator (1 / 100) 10 5) 1 50 (1 / 1000) (0, 0, 1) = (NaN, - 1)"
  by (simp add: probe_def sheet_locator_def)

text \<open>
  C5.  The per-point query of \<open>surface_self_distances\<close> should be made with the tolerance
  the computation was given.  It is not: for one point at the origin with normal
  \<open>(0,0,1)\<close> and a sheet 10 above whose edge passes the probed line at distance \<open>0.01\<close>,
  the query with the command's default tolerance \<open>0.1\<close> finds the sheet at distance 10,
  while the command run with that tolerance records no hit, because the locator is asked
  with \<open>0.001\<close>.
\<close>

theorem tolerance_not_passed:
  "get_dist_two_directions (0, 0, 0) (0, 0, 1) (sheet_locator (1 / 100) 10 5) 1 50
       default_tolerance =
     Inr (Val 10, 5, NaN, - 1)
   \<and> intra_cli \<lparr>vertices = [\<lparr>xyz = (0, 0, 0), n_v = (0, 0, 1)\<rparr>], vp = Map.empty\<rparr>
        (sheet_locator (1 / 100) 10 5) False 1 50 default_tolerance =
     Inr \<lparr>vertices = [\<lparr>xyz = (0, 0, 0), n_v = (0, 0, 1)\<rparr>],
          vp = [''self_dist_min'' \<mapsto> PFloat [NaN], ''self_id_min'' \<mapsto> PLong [- 1],
                ''self_dist_far'' \<mapsto> PFloat [NaN], ''self_id_far'' \<mapsto> PLong [- 1]]\<rparr>"
proof
  show "get_dist_two_directions (0, 0, 0) (0, 0, 1) (sheet_locator (1 / 100) 10 5) 1 50
          default_tolerance =
        Inr (Val 10, 5, NaN, - 1)"
    unfolding default_tolerance_def
    using get_dist_eq [OF edge_miss_down edge_hit_up] by simp
next
  have q: "get_dist_two_directions (0, 0, 0) (0, 0, 1) (sheet_locator (1 / 100) 10 5) 1 50
             (1 / 1000) =
           Inr (NaN, - 1, NaN, - 1)"
    using get_dist_eq [OF edge_miss_down edge_miss_up] by simp
  show "intra_cli \<lparr>vertices = [\<lparr>xyz = (0, 0, 0), n_v = (0, 0, 1)\<rparr>], vp = Map.empty\<rparr>
        (sheet_locator (1 / 100) 10 5) False 1 50 default_tolerance =
     Inr \<lparr>vertices = [\<lparr>xyz = (0, 0, 0), n_v = (0, 0, 1)\<rparr>],
          vp = [''self_dist_min'' \<mapsto> PFloat [NaN], ''self_id_min'' \<mapsto> PLong [- 1],
                ''self_dist_far'' \<mapsto> PFloat [NaN], ''self_id_far'' \<mapsto> PLong [- 1]]\<rparr>"
    by (simp add: intra_cli_def surface_self_distances_def q)
qed

subsection \<open>The distance window\<close>

text \<open>The test of line 77 alone keeps every valid distance within 1 of the window.\<close>

lemma probe_window:
  assumes "probe p loc a b t d = (Val x, c)"
  shows "a - 1 \<le> x \<and> x \<le> b + 1"
  using assms by (auto simp: probe_def Let_def split: prod.splits if_splits)









subsection \<open>Verticality\<close>

lemma vert_bounds:
  assumes "- 1 \<le> z" "z \<le> 1"
  shows "0 \<le> 90 - \<bar>arccos z * 180 / pi - 90\<bar>" "90 - \<bar>arccos z * 180 / pi - 90\<bar> \<le> 90"
proof -
  have a0: "0 \<le> arccos z" using assms by (rule arccos_lbound)
  have a1: "arccos z \<le> pi" using assms by (rule arccos_ubound)
  have "0 \<le> arccos z * 180 / pi" using a0 pi_gt_zero by simp
  moreover have "arccos z * 180 / pi \<le> 180"
    using a1 pi_gt_zero by (simp add: pos_divide_le_eq)
  ultimately show "0 \<le> 90 - \<bar>arccos z * 180 / pi - 90\<bar>" by linarith
  show "90 - \<bar>arccos z * 180 / pi - 90\<bar> \<le> 90" by simp
qed

lemma vert_values: "vert 1 = Val 0" "vert (- 1) = Val 0" "vert 0 = Val 90"
  by (simp_all add: vert_def)

lemma surface_verticality_vp:
  "vp (surface_verticality g) ''verticality'' =
     Some (PFloat (map (\<lambda>v. vert (vz (n_v v))) (vertices g)))"
  by (simp add: surface_verticality_def Let_def)

text \<open>
  C7.  For every point \<open>i\<close> whose normal has its z-component \<open>z\<close> in \<open>[-1, 1]\<close>, the
  \<open>verticality\<close> attribute written at \<open>i\<close> is \<open>90 - |arccos z * 180 / pi - 90|\<close>, a value
  in \<open>[0, 90]\<close>; it is 0 for \<open>z = 1\<close> and \<open>z = -1\<close>, and 90 for \<open>z = 0\<close>.
\<close>

theorem verticality_formula_and_bounds:
  assumes "i < length (vertices g)"
    and "z = vz (n_v (vertices g ! i))"
    and "- 1 \<le> z" and "z \<le> 1"
  shows "\<exists>vs. vp (surface_verticality g) ''verticality'' = Some (PFloat vs)
           \<and> length vs = length (vertices g)
           \<and> vs ! i = Val (90 - \<bar>arccos z * 180 / pi - 90\<bar>)
           \<and> 0 \<le> 90 - \<bar>arccos z * 180 / pi - 90\<bar>
           \<and> 90 - \<bar>arccos z * 180 / pi - 90\<bar> \<le> 90
           \<and> (z = 1 \<or> z = - 1 \<longrightarrow> vs ! i = Val 0)
           \<and> (z = 0 \<longrightarrow> vs ! i = Val 90)"
proof -
  let ?vs = "map (\<lambda>v. vert (vz (n_v v))) (vertices g)"
  have i: "?vs ! i = vert z" using assms(1,2) by simp
  have f: "vert z = Val (90 - \<bar>arccos z * 180 / pi - 90\<bar>)"
    using assms(3,4) by (simp add: vert_def)
  show ?thesis
    using surface_verticality_vp [of g] i f vert_bounds [OF assms(3,4)] vert_values
    by (intro exI [of _ ?vs]) auto
qed

text \<open>Scenarios A and B: a horizontal and a vertical patch.\<close>

theorem verticality_formula_and_bounds_witness:
  "(1 :: nat) < length (vertices \<lparr>vertices = [\<lparr>xyz = (0, 0, 0), n_v = (0, 0, 1)\<rparr>,
                                             \<lparr>xyz = (5, 0, 0), n_v = (1, 0, 0)\<rparr>],
                                 vp = Map.empty\<rparr>)
   \<and> - 1 \<le> (0 :: real) \<and> (0 :: real) \<le> 1
   \<and> vp (surface_verticality \<lparr>vertices = [\<lparr>xyz = (0, 0, 0), n_v = (0, 0, 1)\<rparr>,
                                          \<lparr>xyz = (5, 0, 0), n_v = (1, 0, 0)\<rparr>],
                              vp = Map.empty\<rparr>) ''verticality'' =
       Some (PFloat [Val 0, Val 90])"
  using verticality_formula_and_bounds
          [of 1 "\<lparr>vertices = [\<lparr>xyz = (0, 0, 0), n_v = (0, 0, 1)\<rparr>,
                              \<lparr>xyz = (5, 0, 0), n_v = (1, 0, 0)\<rparr>],
                  vp = Map.empty\<rparr>" 0]
  by (simp add: surface_verticality_def vert_def)

subsection \<open>Derived file names\<close>

text \<open>
  For a graph file \<open>stem.gt\<close> the surface file and the CSV file of the distance pass are
  \<open>stem.vtp\<close> and \<open>stem.csv\<close>.  The CSV file of the verticality pass drops four
  characters, one more than the extension has, and so loses the last character of the
  stem.
\<close>

lemma gt_paths:
  "intra_cli_surface_file (stem @ ''.gt'') = stem @ ''.vtp''"
  "surface_self_distances_csvname (stem @ ''.gt'') = stem @ ''.csv''"
  "surface_verticality_csvname (stem @ ''.gt'') = butlast stem @ ''.csv''"
  by (simp_all add: surface_verticality_csvname_def surface_self_distances_csvname_def
        intra_cli_surface_file_def slice_to_neg_def butlast_conv_take)

text \<open>
  C9.  For the graph file \<open>mesh.gt\<close> the surface file is \<open>mesh.vtp\<close> and the distance pass
  exports to \<open>mesh.csv\<close>, but the verticality pass exports to \<open>mes.csv\<close>: the two CSV
  paths of the same graph file differ.
\<close>

theorem csv_name_mismatch:
  "intra_cli_surface_file ''mesh.gt'' = ''mesh.vtp''
   \<and> surface_self_distances_csvname ''mesh.gt'' = ''mesh.csv''
   \<and> surface_verticality_csvname ''mesh.gt'' = ''mes.csv''
   \<and> surface_verticality_csvname ''mesh.gt'' \<noteq> surface_self_distances_csvname ''mesh.gt''"
  by (simp add: surface_verticality_csvname_def surface_self_distances_csvname_def
        intra_cli_surface_file_def slice_to_neg_def)

subsection \<open>Determinism of the distance pass\<close>

lemma get_dist_returns:
  "\<exists>q. get_dist_two_directions p n loc a b t = Inr q"
proof -
  obtain e0 i0 where p0: "probe p loc a b t (vneg n) = (e0, i0)"
    by (cases "probe p loc a b t (vneg n)")
  obtain e1 i1 where p1: "probe p loc a b t n = (e1, i1)"
    by (cases "probe p loc a b t n")
  show ?thesis using get_dist_eq [OF p0 p1] by blast
qed

text \<open>
  The loop invariant: the four arrays keep their length, every index the loop has
  visited holds the quadruple of its own point, and every other index is untouched.
\<close>

lemma distance_loop_inv:
  assumes "\<forall>i \<in> set is. i < n"
    and "length cd = n" "length ci = n" "length fd = n" "length fi = n"
  shows "\<exists>cd' ci' fd' fi'.
      distance_loop is xs ns loc a b (cd, ci, fd, fi) = Inr (cd', ci', fd', fi') \<and>
      length cd' = n \<and> length ci' = n \<and> length fd' = n \<and> length fi' = n \<and>
      (\<forall>i < n. if i \<in> set is
         then get_dist_two_directions (xs ! i) (ns ! i) loc a b (1 / 1000)
                = Inr (cd' ! i, ci' ! i, fd' ! i, fi' ! i)
         else cd' ! i = cd ! i \<and> ci' ! i = ci ! i \<and> fd' ! i = fd ! i \<and> fi' ! i = fi ! i)"
  using assms
proof (induction "is" arbitrary: cd ci fd fi)
  case Nil
  then show ?case by simp
next
  case (Cons j js)
  obtain qa qb qc qd where
    q: "get_dist_two_directions (xs ! j) (ns ! j) loc a b (1 / 1000) = Inr (qa, qb, qc, qd)"
    using get_dist_returns [of "xs ! j" "ns ! j" loc a b "1 / 1000"] by (metis prod_cases4)
  have jn: "j < n" using Cons.prems(1) by simp
  from Cons.IH [of "cd[j := qa]" "ci[j := qb]" "fd[j := qc]" "fi[j := qd]"] Cons.prems
  obtain cd' ci' fd' fi' where
    r: "distance_loop js xs ns loc a b (cd[j := qa], ci[j := qb], fd[j := qc], fi[j := qd]) =
          Inr (cd', ci', fd', fi')"
    and l: "length cd' = n" "length ci' = n" "length fd' = n" "length fi' = n"
    and e: "\<forall>i < n. if i \<in> set js
         then get_dist_two_directions (xs ! i) (ns ! i) loc a b (1 / 1000)
                = Inr (cd' ! i, ci' ! i, fd' ! i, fi' ! i)
         else cd' ! i = cd[j := qa] ! i \<and> ci' ! i = ci[j := qb] ! i
              \<and> fd' ! i = fd[j := qc] ! i \<and> fi' ! i = fi[j := qd] ! i"
    by auto
  have "distance_loop (j # js) xs ns loc a b (cd, ci, fd, fi) = Inr (cd', ci', fd', fi')"
    using q r by simp
  moreover have "\<forall>i < n. if i \<in> set (j # js)
         then get_dist_two_directions (xs ! i) (ns ! i) loc a b (1 / 1000)
                = Inr (cd' ! i, ci' ! i, fd' ! i, fi' ! i)
         else cd' ! i = cd ! i \<and> ci' ! i = ci ! i \<and> fd' ! i = fd ! i \<and> fi' ! i = fi ! i"
  proof (intro allI impI)
    fix i assume "i < n"
    with e have ei: "if i \<in> set js
         then get_dist_two_directions (xs ! i) (ns ! i) loc a b (1 / 1000)
                = Inr (cd' ! i, ci' ! i, fd' ! i, fi' ! i)
         else cd' ! i = cd[j := qa] ! i \<and> ci' ! i = ci[j := qb] ! i
              \<and> fd' ! i = fd[j := qc] ! i \<and> fi' ! i = fi[j := qd] ! i"
      by blast
    show "if i \<in> set (j # js)
         then get_dist_two_directions (xs ! i) (ns ! i) loc a b (1 / 1000)
                = Inr (cd' ! i, ci' ! i, fd' ! i, fi' ! i)
         else cd' ! i = cd ! i \<and> ci' ! i = ci ! i \<and> fd' ! i = fd ! i \<and> fi' ! i = fi ! i"
    proof (cases "i = j")
      case True
      then show ?thesis using ei q jn Cons.prems by (auto split: if_splits)
    next
      case False
      then show ?thesis using ei by (auto split: if_splits)
    qed
  qed
  ultimately show ?case using l by blast
qed

lemma surface_self_distances_result:
  "\<exists>cd ci fd fi.
     surface_self_distances g loc a b t =
       Inr (g\<lparr>vp := (vp g)(''self_dist_min'' \<mapsto> PFloat cd, ''self_id_min'' \<mapsto> PLong ci,
                            ''self_dist_far'' \<mapsto> PFloat fd, ''self_id_far'' \<mapsto> PLong fi)\<rparr>)
     \<and> distance_loop [0..<length (vertices g)] (map xyz (vertices g)) (map n_v (vertices g))
          loc a b
          (replicate (length (vertices g)) (Val 0), replicate (length (vertices g)) 0,
           replicate (length (vertices g)) (Val 0), replicate (length (vertices g)) 0) =
         Inr (cd, ci, fd, fi)
     \<and> length cd = length (vertices g) \<and> length ci = length (vertices g)
     \<and> length fd = length (vertices g) \<and> length fi = length (vertices g)
     \<and> (\<forall>i < length (vertices g).
          get_dist_two_directions (xyz (vertices g ! i)) (n_v (vertices g ! i)) loc a b (1 / 1000) =
            Inr (cd ! i, ci ! i, fd ! i, fi ! i))"
proof -
  let ?n = "length (vertices g)"
  have "\<forall>i \<in> set [0..<?n]. i < ?n" by simp
  from distance_loop_inv [OF this, of "replicate ?n (Val 0)" "replicate ?n 0"
      "replicate ?n (Val 0)" "replicate ?n 0" "map xyz (vertices g)" "map n_v (vertices g)" loc a b]
  obtain cd ci fd fi where
    r: "distance_loop [0..<?n] (map xyz (vertices g)) (map n_v (vertices g)) loc a b
          (replicate ?n (Val 0), replicate ?n 0, replicate ?n (Val 0), replicate ?n 0) =
        Inr (cd, ci, fd, fi)"
    and l: "length cd = ?n" "length ci = ?n" "length fd = ?n" "length fi = ?n"
    and e: "\<forall>i < ?n. if i \<in> set [0..<?n]
         then get_dist_two_directions (map xyz (vertices g) ! i) (map n_v (vertices g) ! i)
                loc a b (1 / 1000) = Inr (cd ! i, ci ! i, fd ! i, fi ! i)
         else cd ! i = replicate ?n (Val 0) ! i \<and> ci ! i = replicate ?n 0 ! i
              \<and> fd ! i = replicate ?n (Val 0) ! i \<and> fi ! i = replicate ?n 0 ! i"
    by auto
  have e': "\<forall>i < ?n. get_dist_two_directions (xyz (vertices g ! i)) (n_v (vertices g ! i))
                loc a b (1 / 1000) = Inr (cd ! i, ci ! i, fd ! i, fi ! i)"
    using e by simp
  have "surface_self_distances g loc a b t =
       Inr (g\<lparr>vp := (vp g)(''self_dist_min'' \<mapsto> PFloat cd, ''self_id_min'' \<mapsto> PLong ci,
                            ''self_dist_far'' \<mapsto> PFloat fd, ''self_id_far'' \<mapsto> PLong fi)\<rparr>)"
    by (simp add: surface_self_distances_def Let_def r)
  then show ?thesis using r l e' by blast
qed

lemma four_updates_idem:
  "(m(k1 \<mapsto> a, k2 \<mapsto> b, k3 \<mapsto> c, k4 \<mapsto> d))(k1 \<mapsto> a, k2 \<mapsto> b, k3 \<mapsto> c, k4 \<mapsto> d) =
     m(k1 \<mapsto> a, k2 \<mapsto> b, k3 \<mapsto> c, k4 \<mapsto> d)"
  by (rule ext) simp

text \<open>
  C8.  For two graphs with the same per-point positions and normals, the same locator
  (surface) and the same parameters, the distance pass returns, and writes the same four
  sequences on both, whatever other properties the graphs carry; the entry of point \<open>i\<close>
  is the quadruple \<open>get_dist_two_directions\<close> computes from the position and normal of
  point \<open>i\<close>, the locator and the window alone; and running the pass again on its own
  output changes nothing.  The locator is a function: the external index is taken to
  answer the same query the same way.
\<close>

theorem self_distances_deterministic:
  assumes "vertices g1 = vertices g2"
  shows "\<exists>cd ci fd fi.
     surface_self_distances g1 locator dist_min dist_max tolerance =
       Inr (g1\<lparr>vp := (vp g1)(''self_dist_min'' \<mapsto> PFloat cd, ''self_id_min'' \<mapsto> PLong ci,
                              ''self_dist_far'' \<mapsto> PFloat fd, ''self_id_far'' \<mapsto> PLong fi)\<rparr>)
     \<and> surface_self_distances g2 locator dist_min dist_max tolerance =
       Inr (g2\<lparr>vp := (vp g2)(''self_dist_min'' \<mapsto> PFloat cd, ''self_id_min'' \<mapsto> PLong ci,
                              ''self_dist_far'' \<mapsto> PFloat fd, ''self_id_far'' \<mapsto> PLong fi)\<rparr>)
     \<and> length cd = length (vertices g1) \<and> length ci = length (vertices g1)
     \<and> length fd = length (vertices g1) \<and> length fi = length (vertices g1)
     \<and> (\<forall>i < length (vertices g1).
          get_dist_two_directions (xyz (vertices g1 ! i)) (n_v (vertices g1 ! i))
              locator dist_min dist_max (1 / 1000) =
            Inr (cd ! i, ci ! i, fd ! i, fi ! i))
     \<and> (\<forall>g'. surface_self_distances g1 locator dist_min dist_max tolerance = Inr g' \<longrightarrow>
              surface_self_distances g' locator dist_min dist_max tolerance = Inr g')"
proof -
  obtain cd ci fd fi where
    s1: "surface_self_distances g1 locator dist_min dist_max tolerance =
       Inr (g1\<lparr>vp := (vp g1)(''self_dist_min'' \<mapsto> PFloat cd, ''self_id_min'' \<mapsto> PLong ci,
                              ''self_dist_far'' \<mapsto> PFloat fd, ''self_id_far'' \<mapsto> PLong fi)\<rparr>)"
    and r1: "distance_loop [0..<length (vertices g1)] (map xyz (vertices g1)) (map n_v (vertices g1))
          locator dist_min dist_max
          (replicate (length (vertices g1)) (Val 0), replicate (length (vertices g1)) 0,
           replicate (length (vertices g1)) (Val 0), replicate (length (vertices g1)) 0) =
         Inr (cd, ci, fd, fi)"
    and l: "length cd = length (vertices g1)" "length ci = length (vertices g1)"
      "length fd = length (vertices g1)" "length fi = length (vertices g1)"
    and e: "\<forall>i < length (vertices g1).
          get_dist_two_directions (xyz (vertices g1 ! i)) (n_v (vertices g1 ! i))
              locator dist_min dist_max (1 / 1000) =
            Inr (cd ! i, ci ! i, fd ! i, fi ! i)"
    using surface_self_distances_result [of g1 locator dist_min dist_max tolerance] by blast
  have same: "\<And>g. vertices g = vertices g1 \<Longrightarrow>
      surface_self_distances g locator dist_min dist_max tolerance =
       Inr (g\<lparr>vp := (vp g)(''self_dist_min'' \<mapsto> PFloat cd, ''self_id_min'' \<mapsto> PLong ci,
                            ''self_dist_far'' \<mapsto> PFloat fd, ''self_id_far'' \<mapsto> PLong fi)\<rparr>)"
    using r1 by (simp add: surface_self_distances_def Let_def)
  have s2: "surface_self_distances g2 locator dist_min dist_max tolerance =
       Inr (g2\<lparr>vp := (vp g2)(''self_dist_min'' \<mapsto> PFloat cd, ''self_id_min'' \<mapsto> PLong ci,
                              ''self_dist_far'' \<mapsto> PFloat fd, ''self_id_far'' \<mapsto> PLong fi)\<rparr>)"
    using same [of g2] assms by simp
  have idem: "\<forall>g'. surface_self_distances g1 locator dist_min dist_max tolerance = Inr g' \<longrightarrow>
              surface_self_distances g' locator dist_min dist_max tolerance = Inr g'"
  proof (intro allI impI)
    fix g' assume a: "surface_self_distances g1 locator dist_min dist_max tolerance = Inr g'"
    then have g': "g' = g1\<lparr>vp := (vp g1)(''self_dist_min'' \<mapsto> PFloat cd, ''self_id_min'' \<mapsto> PLong ci,
                              ''self_dist_far'' \<mapsto> PFloat fd, ''self_id_far'' \<mapsto> PLong fi)\<rparr>"
      using s1 by simp
    then have "vertices g' = vertices g1" by simp
    from same [OF this] show "surface_self_distances g' locator dist_min dist_max tolerance = Inr g'"
      unfolding g' by (simp add: four_updates_idem)
  qed
  show ?thesis using s1 s2 l e idem by blast
qed

lemma c_miss_1000:
  "probe (0, 0, 0) (sheet_locator 0 10 5) 1 50 (1 / 1000) (vneg (0, 0, 1)) = (NaN, - 1)"
  by (simp add: probe_def sheet_locator_def)

lemma c_hit_1000:
  "probe (0, 0, 0) (sheet_locator 0 10 5) 1 50 (1 / 1000) (0, 0, 1) = (Val 10, 5)"
  by (simp add: probe_def sheet_locator_def linalg_norm_z del: linalg_norm.simps)

lemma c_quad_1000:
  "get_dist_two_directions (0, 0, 0) (0, 0, 1) (sheet_locator 0 10 5) 1 50 (1 / 1000) =
     Inr (Val 10, 5, NaN, - 1)"
  using get_dist_eq [OF c_miss_1000 c_hit_1000] by simp

theorem self_distances_deterministic_witness:
  "vertices \<lparr>vertices = [\<lparr>xyz = (0, 0, 0), n_v = (0, 0, 1)\<rparr>], vp = Map.empty\<rparr> =
     vertices \<lparr>vertices = [\<lparr>xyz = (0, 0, 0), n_v = (0, 0, 1)\<rparr>],
               vp = [''self_dist_min'' \<mapsto> PFloat [Val 3]]\<rparr>
   \<and> surface_self_distances \<lparr>vertices = [\<lparr>xyz = (0, 0, 0), n_v = (0, 0, 1)\<rparr>], vp = Map.empty\<rparr>
        (sheet_locator 0 10 5) 1 50 (1 / 10) =
       Inr \<lparr>vertices = [\<lparr>xyz = (0, 0, 0), n_v = (0, 0, 1)\<rparr>],
            vp = [''self_dist_min'' \<mapsto> PFloat [Val 10], ''self_id_min'' \<mapsto> PLong [5],
                  ''self_dist_far'' \<mapsto> PFloat [NaN], ''self_id_far'' \<mapsto> PLong [- 1]]\<rparr>
   \<and> surface_self_distances \<lparr>vertices = [\<lparr>xyz = (0, 0, 0), n_v = (0, 0, 1)\<rparr>],
                              vp = [''self_dist_min'' \<mapsto> PFloat [Val 3]]\<rparr>
        (sheet_locator 0 10 5) 1 50 (1 / 10) =
       Inr \<lparr>vertices = [\<lparr>xyz = (0, 0, 0), n_v = (0, 0, 1)\<rparr>],
            vp = [''self_dist_min'' \<mapsto> PFloat [Val 10], ''self_id_min'' \<mapsto> PLong [5],
                  ''self_dist_far'' \<mapsto> PFloat [NaN], ''self_id_far'' \<mapsto> PLong [- 1]]\<rparr>"
  using self_distances_deterministic
          [of "\<lparr>vertices = [\<lparr>xyz = (0, 0, 0), n_v = (0, 0, 1)\<rparr>], vp = Map.empty\<rparr>"
              "\<lparr>vertices = [\<lparr>xyz = (0, 0, 0), n_v = (0, 0, 1)\<rparr>],
                vp = [''self_dist_min'' \<mapsto> PFloat [Val 3]]\<rparr>"
              "sheet_locator 0 10 5" 1 50 "1 / 10"]
  by (simp add: surface_self_distances_def c_quad_1000)

end
